theory Spec2Isabelle
  imports Complex_Main
begin

section \<open>Alert monitoring: data model\<close>

text \<open>
  The embedding follows \<^verbatim>\<open>src/lib/alertMonitoring.ts\<close>. A JavaScript \<^verbatim>\<open>number\<close> that
  carries a measurement (signal strength, battery, coordinates, distance) is a \<open>real\<close>:
  rounding of IEEE doubles, \<^verbatim>\<open>NaN\<close> and the infinities are not modelled. A timestamp
  (\<^verbatim>\<open>Date.now()\<close>, integral milliseconds) is an \<open>int\<close>. The thresholds of
  \<^verbatim>\<open>ALERT_THRESHOLDS\<close> are the constants the source initialises them with. The lines
  written with \<^verbatim>\<open>console.log\<close> are not part of the model.
\<close>

datatype severity = Sev_error | Sev_warning

text \<open>
  What \<^verbatim>\<open>emit(name, payload)\<close> of the Tauri event bridge is called with:
  \<^verbatim>\<open>"create-toast"\<close> with \<^verbatim>\<open>{id, type, title, description}\<close>, or
  \<^verbatim>\<open>"dismiss-toast"\<close> with \<^verbatim>\<open>{id}\<close>.
\<close>

datatype toast_event =
    CreateToast string severity string string
  | DismissToast string

fun event_id :: "toast_event \<Rightarrow> string" where
  "event_id (CreateToast i sev title description) = i"
| "event_id (DismissToast i) = i"

fun is_create :: "toast_event \<Rightarrow> bool" where
  "is_create (CreateToast i sev title description) = True"
| "is_create (DismissToast i) = False"

text \<open>
  Modelled from the spec: the types of \<^verbatim>\<open>./bindings\<close> (\<^verbatim>\<open>VehicleTelemetryData\<close> and the
  per-vehicle record) are not among the sources. The fields are the ones the code
  reads; a record that is \<^verbatim>\<open>null\<close> or \<^verbatim>\<open>undefined\<close> is \<open>None\<close>.
\<close>

record Coordinate =
  latitude :: real
  longitude :: real

record TelemetryData =
  signal_strength :: real
  vehicle_status :: string
  battery_life :: real
  current_position :: "Coordinate option"

record VehicleTelemetryData =
  ERU :: "TelemetryData option"
  MEA :: "TelemetryData option"
  MRA :: "TelemetryData option"

text \<open>
  The environment of a run: the value the \<open>n\<close>-th call of \<^verbatim>\<open>Date.now()\<close> returns, and
  the built-in \<^verbatim>\<open>Number.prototype.toFixed\<close> (\<open>toFixed env x digits\<close>), which only
  formats the description of a toast and is left as a parameter.
\<close>

record env =
  Date_now :: "nat \<Rightarrow> int"
  toFixed :: "real \<Rightarrow> nat \<Rightarrow> string"

text \<open>
  The module state: \<^verbatim>\<open>activeAlerts\<close> (a JavaScript \<^verbatim>\<open>Map\<close>, which keeps insertion
  order, as an association list), the events handed to \<^verbatim>\<open>emit\<close> so far (oldest
  first), and the number of clock reads so far.
\<close>

record state =
  activeAlerts :: "(string \<times> int) list"
  emitted :: "toast_event list"
  clock_reads :: nat

definition init_state :: state where
  "init_state = \<lparr>activeAlerts = [], emitted = [], clock_reads = 0\<rparr>"

subsection \<open>The operations of a JavaScript Map used by the module\<close>

definition Map_get :: "(string \<times> int) list \<Rightarrow> string \<Rightarrow> int option" where
  "Map_get m k = map_of m k"

definition Map_has :: "(string \<times> int) list \<Rightarrow> string \<Rightarrow> bool" where
  "Map_has m k = (k \<in> set (map fst m))"

text \<open>\<^verbatim>\<open>set\<close> overwrites the value of a present key in place and appends a new key.\<close>

fun Map_set :: "(string \<times> int) list \<Rightarrow> string \<Rightarrow> int \<Rightarrow> (string \<times> int) list" where
  "Map_set [] k v = [(k, v)]"
| "Map_set (p # ps) k v = (if fst p = k then (k, v) # ps else p # Map_set ps k v)"

definition Map_delete :: "(string \<times> int) list \<Rightarrow> string \<Rightarrow> (string \<times> int) list" where
  "Map_delete m k = filter (\<lambda>p. fst p \<noteq> k) m"

definition Map_keys :: "(string \<times> int) list \<Rightarrow> string list" where
  "Map_keys m = map fst m"

text \<open>A list stands for a Map when no key occurs twice.\<close>

definition Map_wf :: "(string \<times> int) list \<Rightarrow> bool" where
  "Map_wf m = distinct (map fst m)"

subsection \<open>Configuration\<close>

definition SIGNAL_STRENGTH :: real where "SIGNAL_STRENGTH = - 70"
definition LOW_BATTERY :: real where "LOW_BATTERY = 20"
definition PROXIMITY :: real where "PROXIMITY = 100"

definition ALERT_UPDATE_DEBOUNCE :: int where "ALERT_UPDATE_DEBOUNCE = 3000"

section \<open>Helper functions\<close>

definition getAlertKey :: "string \<Rightarrow> string \<Rightarrow> string" where
  "getAlertKey vehicle type = vehicle @ ''_'' @ type"

text \<open>
  \<^verbatim>\<open>Math.atan2(y, x)\<close> on the reals (without signed zeros): the angle of the point
  \<open>(x, y)\<close> in \<open>(-\<pi>, \<pi>]\<close>.
\<close>

definition Math_atan2 :: "real \<Rightarrow> real \<Rightarrow> real" where
  "Math_atan2 y x =
     (if 0 < x then arctan (y / x)
      else if x < 0 then (if 0 \<le> y then arctan (y / x) + pi else arctan (y / x) - pi)
      else if 0 < y then pi / 2
      else if y < 0 then - (pi / 2)
      else 0)"

text \<open>
  The haversine term \<^verbatim>\<open>a\<close> of \<^verbatim>\<open>calculateDistance\<close>, and the distance, over the reals.
  The source computes both in binary64 and does not clamp \<^verbatim>\<open>a\<close> to \<open>[0, 1]\<close>: for
  points that are nearly antipodal, where the real term is \<open>1\<close> or just below it, the
  computed \<^verbatim>\<open>a\<close> can round above \<open>1\<close>; then \<^verbatim>\<open>Math.sqrt(1 - a)\<close> and the result
  of the source are \<^verbatim>\<open>NaN\<close>, where this model has a distance of about half the
  circumference. What is proved of \<open>calculateDistance\<close> below is proved of the real
  formula, not of its binary64 evaluation.
\<close>

definition haversine_a :: "real \<Rightarrow> real \<Rightarrow> real \<Rightarrow> real \<Rightarrow> real" where
  "haversine_a lat1 lon1 lat2 lon2 =
     (let dLat = ((lat2 - lat1) * pi) / 180;
          dLon = ((lon2 - lon1) * pi) / 180
      in sin (dLat / 2) * sin (dLat / 2) +
         cos ((lat1 * pi) / 180) * cos ((lat2 * pi) / 180) * sin (dLon / 2) * sin (dLon / 2))"

definition calculateDistance :: "real \<Rightarrow> real \<Rightarrow> real \<Rightarrow> real \<Rightarrow> real" where
  "calculateDistance lat1 lon1 lat2 lon2 =
     (let R = 3959;
          a = haversine_a lat1 lon1 lat2 lon2;
          c = 2 * Math_atan2 (sqrt a) (sqrt (1 - a))
      in R * c * 5280)"

text \<open>\<^verbatim>\<open>emit(name, payload)\<close>: fire and forget; the event is appended to the log.\<close>

definition emit :: "toast_event \<Rightarrow> state \<Rightarrow> state" where
  "emit e s = s\<lparr>emitted := emitted s @ [e]\<rparr>"

text \<open>
  \<^verbatim>\<open>!lastUpdate\<close>: a timestamp is falsy when it is \<^verbatim>\<open>undefined\<close> and also when it
  is the number \<open>0\<close>.
\<close>

fun falsy :: "int option \<Rightarrow> bool" where
  "falsy None = True"
| "falsy (Some t) = (t = 0)"

definition emitAlert ::
  "env \<Rightarrow> string \<Rightarrow> string \<Rightarrow> severity \<Rightarrow> string \<Rightarrow> string \<Rightarrow> state \<Rightarrow> state" where
  "emitAlert env vehicle type severity title description s =
     (let alertKey = getAlertKey vehicle type;
          now = Date_now env (clock_reads s);
          s1 = s\<lparr>clock_reads := Suc (clock_reads s)\<rparr>;
          lastUpdate = Map_get (activeAlerts s1) alertKey;
          shouldUpdate =
            (falsy lastUpdate \<or>
             (case lastUpdate of None \<Rightarrow> False | Some t \<Rightarrow> ALERT_UPDATE_DEBOUNCE \<le> now - t))
      in if shouldUpdate
         then emit (CreateToast alertKey severity title description)
                (s1\<lparr>activeAlerts := Map_set (activeAlerts s1) alertKey now\<rparr>)
         else s1)"

definition clearAlert :: "string \<Rightarrow> string \<Rightarrow> state \<Rightarrow> state" where
  "clearAlert vehicle type s =
     (let alertKey = getAlertKey vehicle type
      in if Map_has (activeAlerts s) alertKey
         then emit (DismissToast alertKey)
                (s\<lparr>activeAlerts := Map_delete (activeAlerts s) alertKey\<rparr>)
         else s)"

section \<open>Alert condition checkers\<close>

definition checkSignalStrength :: "env \<Rightarrow> string \<Rightarrow> real \<Rightarrow> state \<Rightarrow> state" where
  "checkSignalStrength env vehicle signalStrength s =
     (if signalStrength < SIGNAL_STRENGTH
      then emitAlert env vehicle ''signal_strength'' Sev_warning
             ''Warning: Signal Integrity''
             (''Weak signal integrity/connection lost to '' @ vehicle @ ''!'') s
      else clearAlert vehicle ''signal_strength'' s)"

definition checkConnectionStatus :: "env \<Rightarrow> string \<Rightarrow> string \<Rightarrow> state \<Rightarrow> state" where
  "checkConnectionStatus env vehicle vehicleStatus s =
     (let s1 =
            (if vehicleStatus = ''Disconnected''
             then emitAlert env vehicle ''heartbeat_timeout'' Sev_error
                    ''Error: Connection Failure''
                    (''Unable to connect to '' @ vehicle) s
             else if vehicleStatus = ''Connected''
             then clearAlert vehicle ''heartbeat_timeout'' s
             else s)
      in if vehicleStatus = ''Bad Connection''
         then emitAlert env vehicle ''signal_strength'' Sev_warning
                ''Warning: Signal Integrity''
                (''Weak signal integrity/connection lost to '' @ vehicle @ ''!'') s1
         else s1)"

definition checkBatteryLevel :: "env \<Rightarrow> string \<Rightarrow> real \<Rightarrow> state \<Rightarrow> state" where
  "checkBatteryLevel env vehicle batteryLife s =
     (if batteryLife < LOW_BATTERY
      then emitAlert env vehicle ''abnormal_status'' Sev_error
             ''Error: Abnormal Status''
             (''Abnormal '' @ vehicle @ '' status (low battery: '' @
                toFixed env batteryLife 1 @ ''%)!'') s
      else clearAlert vehicle ''abnormal_status'' s)"

definition checkGeoFenceStatus :: "env \<Rightarrow> string \<Rightarrow> string \<Rightarrow> state \<Rightarrow> state" where
  "checkGeoFenceStatus env vehicle vehicleStatus s =
     (if vehicleStatus = ''Approaching restricted area''
      then emitAlert env vehicle ''geo_fence'' Sev_warning
             ''Warning: Keep-Out Zone''
             (vehicle @ '' approaching keep-out zone!'') s
      else if vehicleStatus \<noteq> ''Approaching restricted area''
      then clearAlert vehicle ''geo_fence'' s
      else s)"

definition checkVehicleProximity ::
  "env \<Rightarrow> string \<Rightarrow> real \<Rightarrow> real \<Rightarrow> string \<Rightarrow> real \<Rightarrow> real \<Rightarrow> state \<Rightarrow> state" where
  "checkVehicleProximity env vehicle1 lat1 lon1 vehicle2 lat2 lon2 s =
     (let distance = calculateDistance lat1 lon1 lat2 lon2
      in if distance < PROXIMITY
         then emitAlert env vehicle1 (''proximity_'' @ vehicle2) Sev_warning
                ''Warning: Vehicle Proximity''
                (vehicle1 @ '' and '' @ vehicle2 @ '' are within '' @
                   toFixed env distance 0 @ '' ft of each other!'') s
         else clearAlert vehicle1 (''proximity_'' @ vehicle2) s)"

section \<open>Main alert monitoring function\<close>

definition vehicles :: "string list" where
  "vehicles = [''ERU'', ''MEA'', ''MRA'']"

text \<open>\<^verbatim>\<open>telemetryState[vehicle]\<close>.\<close>

definition telemetry_at :: "VehicleTelemetryData \<Rightarrow> string \<Rightarrow> TelemetryData option" where
  "telemetry_at telemetryState vehicle =
     (if vehicle = ''ERU'' then ERU telemetryState
      else if vehicle = ''MEA'' then MEA telemetryState
      else if vehicle = ''MRA'' then MRA telemetryState
      else None)"

text \<open>The callback of \<^verbatim>\<open>vehicles.forEach\<close>.\<close>

definition checkVehicle :: "env \<Rightarrow> VehicleTelemetryData \<Rightarrow> state \<Rightarrow> string \<Rightarrow> state" where
  "checkVehicle env telemetryState s vehicle =
     (case telemetry_at telemetryState vehicle of
        None \<Rightarrow> s
      | Some data \<Rightarrow>
          checkGeoFenceStatus env vehicle (vehicle_status data)
            (checkBatteryLevel env vehicle (battery_life data)
              (checkConnectionStatus env vehicle (vehicle_status data)
                (checkSignalStrength env vehicle (signal_strength data) s))))"

text \<open>\<^verbatim>\<open>telemetryState.X?.current_position\<close>.\<close>

definition position_of :: "TelemetryData option \<Rightarrow> Coordinate option" where
  "position_of d = (case d of None \<Rightarrow> None | Some data \<Rightarrow> current_position data)"

text \<open>One guarded proximity check of \<^verbatim>\<open>checkAlerts\<close>.\<close>

definition checkPair ::
  "env \<Rightarrow> string \<Rightarrow> TelemetryData option \<Rightarrow> string \<Rightarrow> TelemetryData option \<Rightarrow> state \<Rightarrow> state" where
  "checkPair env vehicle1 d1 vehicle2 d2 s =
     (case position_of d1 of
        None \<Rightarrow> s
      | Some p1 \<Rightarrow>
          (case position_of d2 of
             None \<Rightarrow> s
           | Some p2 \<Rightarrow>
               checkVehicleProximity env vehicle1 (latitude p1) (longitude p1)
                 vehicle2 (latitude p2) (longitude p2) s))"

definition checkAlerts :: "env \<Rightarrow> VehicleTelemetryData option \<Rightarrow> state \<Rightarrow> state" where
  "checkAlerts env telemetryState s =
     (case telemetryState of
        None \<Rightarrow> s
      | Some t \<Rightarrow>
          checkPair env ''MEA'' (MEA t) ''MRA'' (MRA t)
            (checkPair env ''ERU'' (ERU t) ''MRA'' (MRA t)
              (checkPair env ''ERU'' (ERU t) ''MEA'' (MEA t)
                (foldl (checkVehicle env t) s vehicles))))"

definition getActiveAlerts :: "state \<Rightarrow> string list" where
  "getActiveAlerts s = Map_keys (activeAlerts s)"

definition clearAllAlerts :: "state \<Rightarrow> state" where
  "clearAllAlerts s =
     (foldl (\<lambda>s' (alertKey, timestamp). emit (DismissToast alertKey) s') s (activeAlerts s))
       \<lparr>activeAlerts := []\<rparr>"

section \<open>Notions used in the statements\<close>

text \<open>
  What the module holds about one alert key: its entry in \<^verbatim>\<open>activeAlerts\<close> and the
  events published under that id. \<open>unchanged_at k s s'\<close> says that both are the same
  in \<open>s\<close> and \<open>s'\<close>.
\<close>

definition unchanged_at :: "string \<Rightarrow> state \<Rightarrow> state \<Rightarrow> bool" where
  "unchanged_at k s s' =
     (Map_get (activeAlerts s') k = Map_get (activeAlerts s) k \<and>
      filter (\<lambda>e. event_id e = k) (emitted s') = filter (\<lambda>e. event_id e = k) (emitted s))"

text \<open>The alert types of the four single-vehicle checkers, and the keys they give a vehicle.\<close>

definition own_alert_types :: "string list" where
  "own_alert_types = [''signal_strength'', ''heartbeat_timeout'', ''abnormal_status'', ''geo_fence'']"

definition vehicle_keys :: "string \<Rightarrow> string list" where
  "vehicle_keys vehicle = map (getAlertKey vehicle) own_alert_types"

text \<open>The ordered pairs \<^verbatim>\<open>checkAlerts\<close> hands to \<^verbatim>\<open>checkVehicleProximity\<close>.\<close>

definition proximity_pairs :: "(string \<times> string) list" where
  "proximity_pairs = [(''ERU'', ''MEA''), (''ERU'', ''MRA''), (''MEA'', ''MRA'')]"

definition proximity_key :: "string \<times> string \<Rightarrow> string" where
  "proximity_key p = getAlertKey (fst p) (''proximity_'' @ snd p)"

definition alert_keys :: "string list" where
  "alert_keys = concat (map vehicle_keys vehicles) @ map proximity_key proximity_pairs"

text \<open>
  Every key that names a vehicle: its four own keys and the proximity keys, in either
  direction, with it as one party.
\<close>

definition keys_of_vehicle :: "string \<Rightarrow> string list" where
  "keys_of_vehicle vehicle =
     vehicle_keys vehicle @
     map (\<lambda>other. proximity_key (vehicle, other)) vehicles @
     map (\<lambda>other. proximity_key (other, vehicle)) vehicles"

text \<open>All active keys and all ids of published events lie in \<open>A\<close>.\<close>

definition confined :: "string set \<Rightarrow> state \<Rightarrow> bool" where
  "confined A s = (set (getActiveAlerts s) \<subseteq> A \<and> event_id ` set (emitted s) \<subseteq> A)"

text \<open>
  The states of a run of the module: it starts empty, and its exported operations
  that change the state are \<^verbatim>\<open>checkAlerts\<close> and \<^verbatim>\<open>clearAllAlerts\<close>.
\<close>

inductive reachable :: "env \<Rightarrow> state \<Rightarrow> bool" for env :: env where
  start: "reachable env init_state"
| pass: "reachable env s \<Longrightarrow> reachable env (checkAlerts env telemetryState s)"
| reset: "reachable env s \<Longrightarrow> reachable env (clearAllAlerts s)"

text \<open>
  Three concrete environments: a clock that reads \<open>0\<close> (the Unix epoch) first and
  advances one second per read, and two clocks that start at a present-day time and
  advance one second, respectively one and a half seconds, per read.
\<close>

definition epoch_env :: env where
  "epoch_env = \<lparr>Date_now = (\<lambda>n. 1000 * int n), toFixed = (\<lambda>x digits. [])\<rparr>"

definition sample_env :: env where
  "sample_env =
     \<lparr>Date_now = (\<lambda>n. 1700000000000 + 1000 * int n), toFixed = (\<lambda>x digits. [])\<rparr>"

definition paced_env :: env where
  "paced_env =
     \<lparr>Date_now = (\<lambda>n. 1700000000000 + 1500 * int n), toFixed = (\<lambda>x digits. [])\<rparr>"

text \<open>
  The snapshot of the end-to-end scenario: ERU with battery 15 at \<open>(0, 0)\<close>, MEA with
  battery 90 at \<open>(0, 0.001)\<close>, both connected with signal strength \<open>-50\<close>, and no
  record for MRA.
\<close>

definition scenario :: VehicleTelemetryData where
  "scenario =
     \<lparr>ERU = Some \<lparr>signal_strength = - 50, vehicle_status = ''Connected'', battery_life = 15,
                   current_position = Some \<lparr>latitude = 0, longitude = 0\<rparr>\<rparr>,
      MEA = Some \<lparr>signal_strength = - 50, vehicle_status = ''Connected'', battery_life = 90,
                   current_position = Some \<lparr>latitude = 0, longitude = 1 / 1000\<rparr>\<rparr>,
      MRA = None\<rparr>"

section \<open>The Map operations\<close>

lemma map_of_Map_set: "map_of (Map_set m k v) = (map_of m)(k \<mapsto> v)"
  by (induction m) (auto simp: fun_eq_iff)

lemma keys_Map_set: "fst ` set (Map_set m k v) = insert k (fst ` set m)"
  by (induction m) auto

lemma map_of_Map_delete: "map_of (Map_delete m k) = (map_of m)(k := None)"
  unfolding Map_delete_def by (induction m) (auto simp: fun_eq_iff)

lemma keys_Map_delete: "fst ` set (Map_delete m k) = fst ` set m - {k}"
  unfolding Map_delete_def by force

lemma Map_wf_set: "Map_wf m \<Longrightarrow> Map_wf (Map_set m k v)"
  unfolding Map_wf_def using keys_Map_set [of _ k v] by (induction m) auto

lemma Map_wf_delete: "Map_wf m \<Longrightarrow> Map_wf (Map_delete m k)"
  unfolding Map_wf_def Map_delete_def by (simp add: distinct_map_filter)

lemma Map_has_get: "Map_has m k = (Map_get m k \<noteq> None)"
  unfolding Map_has_def Map_get_def by (simp add: map_of_eq_None_iff)

section \<open>The geodesic distance\<close>

lemma haversine_a_sym: "haversine_a lat1 lon1 lat2 lon2 = haversine_a lat2 lon2 lat1 lon1"
proof -
  have 1: "((lat1 - lat2) * pi) / 180 / 2 = - (((lat2 - lat1) * pi) / 180 / 2)"
    by (simp add: field_simps)
  have 2: "((lon1 - lon2) * pi) / 180 / 2 = - (((lon2 - lon1) * pi) / 180 / 2)"
    by (simp add: field_simps)
  show ?thesis
    unfolding haversine_a_def Let_def 1 2 sin_minus by (simp add: mult.commute)
qed

text \<open>
  The haversine term lies in \<open>[0, 1]\<close> for all arguments, so both square roots of
  \<^verbatim>\<open>calculateDistance\<close> are taken of non-negative numbers.
\<close>

lemma haversine_a_bounds:
  "0 \<le> haversine_a lat1 lon1 lat2 lon2 \<and> haversine_a lat1 lon1 lat2 lon2 \<le> 1"
proof -
  define p where "p = (lat1 * pi) / 180"
  define q where "q = (lat2 * pi) / 180"
  define u where
    "u = sin (((lon2 - lon1) * pi) / 180 / 2) * sin (((lon2 - lon1) * pi) / 180 / 2)"
  define c1 where "c1 = cos (q - p)"
  define c2 where "c2 = cos (q + p)"
  have d: "((lat2 - lat1) * pi) / 180 / 2 = (q - p) / 2"
    by (simp add: p_def q_def field_simps)
  have "2 * ((q - p) / 2) = q - p" by simp
  then have "cos (q - p) = 1 - 2 * (sin ((q - p) / 2))\<^sup>2"
    using cos_double_sin [of "(q - p) / 2"] by metis
  then have s2: "sin ((q - p) / 2) * sin ((q - p) / 2) = (1 - c1) / 2"
    by (simp add: c1_def power2_eq_square)
  have cc: "cos p * cos q = (c1 + c2) / 2"
    using cos_times_cos [of q p] by (simp add: c1_def c2_def mult.commute)
  have "haversine_a lat1 lon1 lat2 lon2 =
      sin ((q - p) / 2) * sin ((q - p) / 2) + (cos p * cos q) * u"
    unfolding haversine_a_def Let_def d p_def q_def u_def by (simp only: mult.assoc)
  then have a: "haversine_a lat1 lon1 lat2 lon2 = (1 - c1) / 2 + (c1 + c2) / 2 * u"
    by (simp only: s2 cc)
  have u0: "0 \<le> u" by (simp add: u_def)
  have u1: "u \<le> 1"
    using sin_cos_squared_add3 [of "((lon2 - lon1) * pi) / 180 / 2"]
      zero_le_square [of "cos (((lon2 - lon1) * pi) / 180 / 2)"]
    unfolding u_def by linarith
  have b1: "- 1 \<le> c1" "c1 \<le> 1" "- 1 \<le> c2" "c2 \<le> 1"
    by (simp_all add: c1_def c2_def)
  have e: "(1 - c1) / 2 + (c1 + c2) / 2 * u = ((1 - c1) * (1 - u) + (1 + c2) * u) / 2"
    by (simp add: field_simps)
  have e': "(1 - c1) / 2 + (c1 + c2) / 2 * u = 1 - ((1 + c1) * (1 - u) + (1 - c2) * u) / 2"
    by (simp add: field_simps)
  have n: "0 \<le> (1 - c1) * (1 - u)" "0 \<le> (1 + c2) * u"
    "0 \<le> (1 + c1) * (1 - u)" "0 \<le> (1 - c2) * u"
    using u0 u1 b1 by simp_all
  have "0 \<le> (1 - c1) * (1 - u) + (1 + c2) * u"
    by (intro add_nonneg_nonneg n)
  then have lo: "0 \<le> haversine_a lat1 lon1 lat2 lon2"
    unfolding a e by (rule divide_nonneg_nonneg) simp
  have "0 \<le> (1 + c1) * (1 - u) + (1 - c2) * u"
    by (intro add_nonneg_nonneg n)
  then have "0 \<le> ((1 + c1) * (1 - u) + (1 - c2) * u) / 2"
    by (rule divide_nonneg_nonneg) simp
  then have hi: "haversine_a lat1 lon1 lat2 lon2 \<le> 1"
    unfolding a e' by (simp only: diff_le_eq le_add_same_cancel1)
  show ?thesis using lo hi by blast
qed

text \<open>
  Over the reals the formula is symmetric in its two points. This is a fact of the real
  formula only: it says nothing of the comparison of two binary64 results, which fails
  when both are \<^verbatim>\<open>NaN\<close>.
\<close>

lemma calculateDistance_real_symmetric:
  "calculateDistance lat1 lon1 lat2 lon2 = calculateDistance lat2 lon2 lat1 lon1"
  by (simp add: calculateDistance_def haversine_a_sym [of lat1 lon1 lat2 lon2])

text \<open>
  At antipodal points, such as \<open>(0.08, 0)\<close> and \<open>(-0.08, 180)\<close>, the real term is
  exactly \<open>1\<close>, the end of the domain of the second square root. Whenever the term is
  at least \<open>1/2\<close> the real distance is not below the proximity threshold, so where
  the source computes \<^verbatim>\<open>NaN\<close>, for which \<^verbatim>\<open>distance < 100\<close> is false, the model takes
  the same branch of \<^verbatim>\<open>checkVehicleProximity\<close>.
\<close>

lemma haversine_a_antipodal: "haversine_a (8 / 100) 0 (- (8 / 100)) 180 = 1"
proof -
  have d: "((- (8 / 100) - 8 / 100) * pi) / 180 / 2 = - ((8 / 100 * pi) / 180)"
    by (simp add: field_simps)
  have "haversine_a (8 / 100) 0 (- (8 / 100)) 180
      = sin ((8 / 100 * pi) / 180) * sin ((8 / 100 * pi) / 180)
        + cos ((8 / 100 * pi) / 180) * cos ((8 / 100 * pi) / 180)"
    unfolding haversine_a_def Let_def d by simp
  also have "\<dots> = 1"
    using sin_cos_squared_add3 [of "(8 / 100 * pi) / 180"] by (simp only: add.commute)
  finally show ?thesis .
qed

lemma haversine_a_large_far:
  assumes "1 / 2 \<le> haversine_a lat1 lon1 lat2 lon2"
  shows "\<not> calculateDistance lat1 lon1 lat2 lon2 < PROXIMITY"
proof -
  define a where "a = haversine_a lat1 lon1 lat2 lon2"
  have a1: "a \<le> 1" and a0: "0 \<le> a"
    using haversine_a_bounds [of lat1 lon1 lat2 lon2] by (simp_all add: a_def)
  have ah: "1 / 2 \<le> a" using assms by (simp add: a_def)
  define y where "y = sqrt a"
  define x where "x = sqrt (1 - a)"
  have x0: "0 \<le> x" using a1 by (simp add: x_def)
  have y0: "0 < y" using ah by (simp add: y_def)
  have xy: "x \<le> y" unfolding x_def y_def using ah by (intro real_sqrt_le_mono) linarith
  have "pi / 4 \<le> Math_atan2 y x"
  proof (cases "0 < x")
    case True
    then have "1 \<le> y / x" using xy by simp
    then have "arctan 1 \<le> arctan (y / x)" by (simp add: arctan_le_iff)
    then show ?thesis using True by (simp add: Math_atan2_def arctan_one)
  next
    case False
    then have "x = 0" using x0 by simp
    then show ?thesis using y0 by (simp add: Math_atan2_def)
  qed
  then have "1 \<le> 2 * Math_atan2 y x" using pi_ge_two by linarith
  then have "3959 * 1 * 5280 \<le> 3959 * (2 * Math_atan2 y x) * 5280" by simp
  moreover have "calculateDistance lat1 lon1 lat2 lon2 = 3959 * (2 * Math_atan2 y x) * 5280"
    by (simp add: calculateDistance_def Let_def a_def x_def y_def)
  ultimately show ?thesis by (simp add: PROXIMITY_def)
qed

text \<open>The distance of the two positions of the scenario, and of a point to itself.\<close>

lemma scenario_distance: "calculateDistance 0 0 0 (1 / 1000) = 3959 * (pi / 180000) * 5280"
proof -
  define x :: real where "x = pi / 360000"
  have x0: "0 < x" by (simp add: x_def)
  have x1: "x < pi / 2" using pi_gt_zero by (simp add: x_def)
  have cx: "0 < cos x" using x0 x1 by (intro cos_gt_zero_pi) linarith+
  have sx: "0 \<le> sin x" using x0 x1 pi_gt_zero by (intro sin_ge_zero) linarith+
  have a: "haversine_a 0 0 0 (1 / 1000) = sin x * sin x"
    by (simp add: haversine_a_def x_def)
  have "1 - sin x * sin x = cos x * cos x"
    using sin_cos_squared_add3 [of x] by linarith
  then have sq: "sqrt (1 - sin x * sin x) = cos x" using cx by simp
  have "Math_atan2 (sin x) (cos x) = arctan (tan x)"
    using cx by (simp add: Math_atan2_def tan_def)
  also have "\<dots> = x" using x0 x1 by (intro arctan_tan) linarith+
  finally have at: "Math_atan2 (sin x) (cos x) = x" .
  have "calculateDistance 0 0 0 (1 / 1000) = 3959 * (2 * x) * 5280"
    using sx by (simp add: calculateDistance_def a sq at)
  then show ?thesis by (simp add: x_def)
qed

lemma scenario_far: "\<not> calculateDistance 0 0 0 (1 / 1000) < PROXIMITY"
  unfolding scenario_distance PROXIMITY_def using pi_ge_two by simp

lemma same_place: "calculateDistance a b a b = 0"
  by (simp add: calculateDistance_def haversine_a_def Math_atan2_def)

section \<open>The dispatcher\<close>

lemma emitAlert_keys:
  "set (getActiveAlerts (emitAlert env v ty sev title d s)) =
     insert (getAlertKey v ty) (set (getActiveAlerts s))"
proof (cases "Map_get (activeAlerts s) (getAlertKey v ty)")
  case None
  then show ?thesis
    by (simp add: emitAlert_def Let_def emit_def getActiveAlerts_def Map_keys_def keys_Map_set)
next
  case (Some t0)
  then have "getAlertKey v ty \<in> set (map fst (activeAlerts s))"
    using Map_has_get [of "activeAlerts s" "getAlertKey v ty"] by (simp add: Map_has_def)
  with Some show ?thesis
    by (auto simp: emitAlert_def Let_def emit_def getActiveAlerts_def Map_keys_def keys_Map_set)
qed

lemma emitAlert_frame:
  "k \<noteq> getAlertKey v ty \<Longrightarrow> unchanged_at k s (emitAlert env v ty sev title d s)"
  by (simp add: unchanged_at_def emitAlert_def Let_def emit_def Map_get_def map_of_Map_set)

lemma emitAlert_wf:
  "Map_wf (activeAlerts s) \<Longrightarrow> Map_wf (activeAlerts (emitAlert env v ty sev title d s))"
  by (simp add: emitAlert_def Let_def emit_def Map_wf_set)

lemma clearAlert_keys:
  "set (getActiveAlerts (clearAlert v ty s)) = set (getActiveAlerts s) - {getAlertKey v ty}"
  by (auto simp: clearAlert_def Let_def emit_def getActiveAlerts_def Map_keys_def
      keys_Map_delete Map_has_def)

lemma clearAlert_frame:
  "k \<noteq> getAlertKey v ty \<Longrightarrow> unchanged_at k s (clearAlert v ty s)"
  by (simp add: unchanged_at_def clearAlert_def Let_def emit_def Map_get_def map_of_Map_delete)

lemma clearAlert_wf:
  "Map_wf (activeAlerts s) \<Longrightarrow> Map_wf (activeAlerts (clearAlert v ty s))"
  by (simp add: clearAlert_def Let_def emit_def Map_wf_delete)

text \<open>
  C1. For a key that is not active, two calls of \<^verbatim>\<open>emitAlert\<close> within the debounce
  window of 3000 ms publish exactly one create notification: the first call publishes
  and the second, less than the window after it, publishes nothing. A third call, at
  least the window after the first publish, publishes a second create notification.
  The clock reading of the first call is not \<open>0\<close>: \<^verbatim>\<open>Date.now()\<close> of a running system
  is the number of milliseconds since 1970, and the module stores nothing but such
  readings.
\<close>

theorem emitAlert_debounce:
  assumes "Map_get (activeAlerts s) (getAlertKey vehicle type) = None"
    and "Date_now env (clock_reads s) \<noteq> 0"
    and "Date_now env (Suc (clock_reads s)) - Date_now env (clock_reads s)
           < ALERT_UPDATE_DEBOUNCE"
    and "ALERT_UPDATE_DEBOUNCE
           \<le> Date_now env (Suc (Suc (clock_reads s))) - Date_now env (clock_reads s)"
  shows "emitted (emitAlert env vehicle type sev title d
                   (emitAlert env vehicle type sev title d s))
           = emitted s @ [CreateToast (getAlertKey vehicle type) sev title d]
      \<and> emitted (emitAlert env vehicle type sev title d
                   (emitAlert env vehicle type sev title d
                     (emitAlert env vehicle type sev title d s)))
           = emitted s @ [CreateToast (getAlertKey vehicle type) sev title d,
                          CreateToast (getAlertKey vehicle type) sev title d]"
  using assms
  by (simp add: emitAlert_def Let_def emit_def Map_get_def map_of_Map_set)

theorem emitAlert_debounce_witness:
  "Map_get (activeAlerts init_state) (getAlertKey ''ERU'' ''geo_fence'') = None \<and>
   Date_now paced_env 0 \<noteq> 0 \<and>
   Date_now paced_env 1 - Date_now paced_env 0 < ALERT_UPDATE_DEBOUNCE \<and>
   ALERT_UPDATE_DEBOUNCE \<le> Date_now paced_env 2 - Date_now paced_env 0 \<and>
   emitted (emitAlert paced_env ''ERU'' ''geo_fence'' Sev_warning
              ''Warning: Keep-Out Zone'' ''ERU approaching keep-out zone!''
             (emitAlert paced_env ''ERU'' ''geo_fence'' Sev_warning
                ''Warning: Keep-Out Zone'' ''ERU approaching keep-out zone!'' init_state))
     = [CreateToast ''ERU_geo_fence'' Sev_warning
          ''Warning: Keep-Out Zone'' ''ERU approaching keep-out zone!''] \<and>
   emitted (emitAlert paced_env ''ERU'' ''geo_fence'' Sev_warning
              ''Warning: Keep-Out Zone'' ''ERU approaching keep-out zone!''
             (emitAlert paced_env ''ERU'' ''geo_fence'' Sev_warning
                ''Warning: Keep-Out Zone'' ''ERU approaching keep-out zone!''
               (emitAlert paced_env ''ERU'' ''geo_fence'' Sev_warning
                  ''Warning: Keep-Out Zone'' ''ERU approaching keep-out zone!'' init_state)))
     = [CreateToast ''ERU_geo_fence'' Sev_warning
          ''Warning: Keep-Out Zone'' ''ERU approaching keep-out zone!'',
        CreateToast ''ERU_geo_fence'' Sev_warning
          ''Warning: Keep-Out Zone'' ''ERU approaching keep-out zone!'']"
proof -
  have h1: "Map_get (activeAlerts init_state) (getAlertKey ''ERU'' ''geo_fence'') = None"
    by (simp add: init_state_def Map_get_def)
  have h2: "Date_now paced_env (clock_reads init_state) \<noteq> 0"
    by (simp add: paced_env_def)
  have h3: "Date_now paced_env (Suc (clock_reads init_state))
              - Date_now paced_env (clock_reads init_state) < ALERT_UPDATE_DEBOUNCE"
    by (simp add: paced_env_def init_state_def ALERT_UPDATE_DEBOUNCE_def)
  have h4: "ALERT_UPDATE_DEBOUNCE
              \<le> Date_now paced_env (Suc (Suc (clock_reads init_state)))
                - Date_now paced_env (clock_reads init_state)"
    by (simp add: paced_env_def init_state_def ALERT_UPDATE_DEBOUNCE_def)
  show ?thesis
    using h1 emitAlert_debounce [OF h1 h2 h3 h4, of Sev_warning
        "''Warning: Keep-Out Zone''" "''ERU approaching keep-out zone!''"]
    by (simp add: paced_env_def init_state_def ALERT_UPDATE_DEBOUNCE_def getAlertKey_def)
qed

text \<open>
  The hypothesis on the first reading is used: a stored timestamp \<open>0\<close> is falsy for
  \<^verbatim>\<open>!lastUpdate\<close>, so with a clock that reads \<open>0\<close> at the first publish a second call
  inside the window publishes again.
\<close>

lemma emitAlert_clock_zero_publishes_twice:
  "Date_now epoch_env 1 - Date_now epoch_env 0 < ALERT_UPDATE_DEBOUNCE \<and>
   emitted (emitAlert epoch_env ''ERU'' ''geo_fence'' Sev_warning
              ''Warning: Keep-Out Zone'' ''ERU approaching keep-out zone!''
             (emitAlert epoch_env ''ERU'' ''geo_fence'' Sev_warning
                ''Warning: Keep-Out Zone'' ''ERU approaching keep-out zone!'' init_state))
     = [CreateToast ''ERU_geo_fence'' Sev_warning
          ''Warning: Keep-Out Zone'' ''ERU approaching keep-out zone!'',
        CreateToast ''ERU_geo_fence'' Sev_warning
          ''Warning: Keep-Out Zone'' ''ERU approaching keep-out zone!'']"
  by (simp add: emitAlert_def Let_def emit_def Map_get_def init_state_def epoch_env_def
      getAlertKey_def ALERT_UPDATE_DEBOUNCE_def)

text \<open>
  C5. Clearing an alert whose key is not in the store changes nothing: the store, the
  published events and the rest of the state are as before. The model has no error
  result, as \<^verbatim>\<open>clearAlert\<close> has no path that throws.
\<close>

theorem clearAlert_absent_noop:
  "\<not> Map_has (activeAlerts s) (getAlertKey vehicle type) \<Longrightarrow> clearAlert vehicle type s = s"
  by (simp add: clearAlert_def)

theorem clearAlert_absent_noop_witness:
  "\<not> Map_has [(''MEA_geo_fence'', 1700000000000)] (getAlertKey ''ERU'' ''geo_fence'') \<and>
   clearAlert ''ERU'' ''geo_fence''
     \<lparr>activeAlerts = [(''MEA_geo_fence'', 1700000000000)], emitted = [], clock_reads = 1\<rparr>
   = \<lparr>activeAlerts = [(''MEA_geo_fence'', 1700000000000)], emitted = [], clock_reads = 1\<rparr>"
proof -
  have h: "\<not> Map_has (activeAlerts
      \<lparr>activeAlerts = [(''MEA_geo_fence'', 1700000000000)], emitted = [], clock_reads = 1\<rparr>)
      (getAlertKey ''ERU'' ''geo_fence'')"
    by (simp add: Map_has_def getAlertKey_def)
  show ?thesis
    using h clearAlert_absent_noop [OF h] by simp
qed

section \<open>The condition checkers\<close>

text \<open>
  C4. The signal-strength checker compares strictly: at exactly \<open>-70\<close> it takes the
  clear branch, so the key is not active afterwards and no create notification is
  published; strictly below \<open>-70\<close> it takes the emit branch with severity warning, so
  the key is active afterwards, and when it was not active before, the warning is
  published.
\<close>

theorem checkSignalStrength_strict_threshold:
  "checkSignalStrength env vehicle (- 70) s = clearAlert vehicle ''signal_strength'' s \<and>
   \<not> Map_has (activeAlerts (checkSignalStrength env vehicle (- 70) s))
        (getAlertKey vehicle ''signal_strength'') \<and>
   filter is_create (emitted (checkSignalStrength env vehicle (- 70) s))
     = filter is_create (emitted s) \<and>
   (x < - 70 \<longrightarrow>
      checkSignalStrength env vehicle x s
        = emitAlert env vehicle ''signal_strength'' Sev_warning ''Warning: Signal Integrity''
            (''Weak signal integrity/connection lost to '' @ vehicle @ ''!'') s \<and>
      Map_has (activeAlerts (checkSignalStrength env vehicle x s))
        (getAlertKey vehicle ''signal_strength'') \<and>
      (\<not> Map_has (activeAlerts s) (getAlertKey vehicle ''signal_strength'') \<longrightarrow>
         emitted (checkSignalStrength env vehicle x s)
           = emitted s @
             [CreateToast (getAlertKey vehicle ''signal_strength'') Sev_warning
                ''Warning: Signal Integrity''
                (''Weak signal integrity/connection lost to '' @ vehicle @ ''!'')]))"
proof -
  let ?k = "getAlertKey vehicle ''signal_strength''"
  have c: "checkSignalStrength env vehicle (- 70) s = clearAlert vehicle ''signal_strength'' s"
    by (simp add: checkSignalStrength_def SIGNAL_STRENGTH_def)
  have a: "\<not> Map_has (activeAlerts (clearAlert vehicle ''signal_strength'' s)) ?k"
    using clearAlert_keys [of vehicle "''signal_strength''" s]
    by (simp add: Map_has_def getActiveAlerts_def Map_keys_def)
  have p: "filter is_create (emitted (clearAlert vehicle ''signal_strength'' s))
      = filter is_create (emitted s)"
    by (simp add: clearAlert_def Let_def emit_def)
  have e: "checkSignalStrength env vehicle x s
        = emitAlert env vehicle ''signal_strength'' Sev_warning ''Warning: Signal Integrity''
            (''Weak signal integrity/connection lost to '' @ vehicle @ ''!'') s"
    if "x < - 70"
    using that by (simp add: checkSignalStrength_def SIGNAL_STRENGTH_def)
  have h: "Map_has (activeAlerts (emitAlert env vehicle ''signal_strength'' sev title d s)) ?k"
    for sev title d
    using emitAlert_keys [of env vehicle "''signal_strength''" sev title d s]
    by (simp add: Map_has_def getActiveAlerts_def Map_keys_def)
  have n: "emitted (emitAlert env vehicle ''signal_strength'' sev title d s)
      = emitted s @ [CreateToast ?k sev title d]"
    if "\<not> Map_has (activeAlerts s) ?k" for sev title d
    using that by (simp add: emitAlert_def Let_def emit_def Map_has_get)
  show ?thesis
    using a p e h n by (simp add: c)
qed

theorem checkSignalStrength_strict_threshold_witness:
  "(- 701 / 10 :: real) < - 70 \<and>
   checkSignalStrength sample_env ''ERU'' (- 70) init_state = init_state \<and>
   emitted (checkSignalStrength sample_env ''ERU'' (- 701 / 10) init_state)
     = [CreateToast ''ERU_signal_strength'' Sev_warning ''Warning: Signal Integrity''
          ''Weak signal integrity/connection lost to ERU!'']"
  using checkSignalStrength_strict_threshold [of sample_env "''ERU''" init_state "- 701 / 10"]
  by (simp add: clearAlert_def Map_has_def init_state_def getAlertKey_def emitAlert_def
      Let_def emit_def Map_get_def)

section \<open>The monitoring entry point\<close>

text \<open>
  C3. A pass over an absent snapshot returns at once: the whole state, in particular
  the dedup store, the set of active alerts and the published events, is unchanged.
\<close>

theorem checkAlerts_null_unchanged:
  "checkAlerts env None s = s \<and>
   activeAlerts (checkAlerts env None s) = activeAlerts s \<and>
   getActiveAlerts (checkAlerts env None s) = getActiveAlerts s \<and>
   emitted (checkAlerts env None s) = emitted s"
  by (simp add: checkAlerts_def)

lemma clearAllAlerts_fold:
  "foldl (\<lambda>s' (alertKey, timestamp). emit (DismissToast alertKey) s') s m
     = s\<lparr>emitted := emitted s @ map DismissToast (map fst m)\<rparr>"
  by (induction m arbitrary: s) (auto simp: emit_def)

lemma clearAllAlerts_eq:
  "clearAllAlerts s =
     s\<lparr>emitted := emitted s @ map DismissToast (getActiveAlerts s), activeAlerts := []\<rparr>"
  by (simp add: clearAllAlerts_def clearAllAlerts_fold getActiveAlerts_def Map_keys_def)

lemma count_list_DismissToast:
  "distinct ks \<Longrightarrow>
   count_list (map DismissToast ks) (DismissToast k) = (if k \<in> set ks then 1 else 0)"
  by (induction ks) auto

text \<open>
  C6. \<^verbatim>\<open>clearAllAlerts\<close> publishes the dismiss notifications of the active keys, in
  the order of the store, and nothing else; each active key is dismissed exactly once
  and no other id is; afterwards no alert is active.
\<close>

theorem clearAllAlerts_dismisses_each_active_key:
  assumes "Map_wf (activeAlerts s)"
  shows "emitted (clearAllAlerts s) = emitted s @ map DismissToast (getActiveAlerts s) \<and>
         (\<forall>k. count_list (map DismissToast (getActiveAlerts s)) (DismissToast k)
                = (if k \<in> set (getActiveAlerts s) then 1 else 0)) \<and>
         filter is_create (map DismissToast (getActiveAlerts s)) = [] \<and>
         getActiveAlerts (clearAllAlerts s) = []"
proof -
  have "distinct (getActiveAlerts s)"
    using assms by (simp add: Map_wf_def getActiveAlerts_def Map_keys_def)
  then have "\<forall>k. count_list (map DismissToast (getActiveAlerts s)) (DismissToast k)
                = (if k \<in> set (getActiveAlerts s) then 1 else 0)"
    by (simp add: count_list_DismissToast)
  moreover have "filter is_create (map DismissToast ks) = []" for ks
    by (induction ks) simp_all
  ultimately show ?thesis
    by (simp add: clearAllAlerts_eq getActiveAlerts_def Map_keys_def)
qed

theorem clearAllAlerts_dismisses_each_active_key_witness:
  "Map_wf [(''ERU_geo_fence'', 1700000000000), (''MEA_abnormal_status'', 1700000001000)] \<and>
   emitted (clearAllAlerts
     \<lparr>activeAlerts = [(''ERU_geo_fence'', 1700000000000), (''MEA_abnormal_status'', 1700000001000)],
      emitted = [], clock_reads = 2\<rparr>)
     = [DismissToast ''ERU_geo_fence'', DismissToast ''MEA_abnormal_status''] \<and>
   getActiveAlerts (clearAllAlerts
     \<lparr>activeAlerts = [(''ERU_geo_fence'', 1700000000000), (''MEA_abnormal_status'', 1700000001000)],
      emitted = [], clock_reads = 2\<rparr>) = []"
proof -
  have h: "Map_wf (activeAlerts
     \<lparr>activeAlerts = [(''ERU_geo_fence'', 1700000000000), (''MEA_abnormal_status'', 1700000001000)],
      emitted = [], clock_reads = 2\<rparr>)"
    by (simp add: Map_wf_def)
  show ?thesis
    using h clearAllAlerts_dismisses_each_active_key [OF h]
    by (simp add: getActiveAlerts_def Map_keys_def)
qed

section \<open>What a checker leaves alone\<close>

lemma unchanged_at_refl: "unchanged_at k s s"
  by (simp add: unchanged_at_def)

lemma unchanged_at_trans:
  "unchanged_at k s s' \<Longrightarrow> unchanged_at k s' s'' \<Longrightarrow> unchanged_at k s s''"
  by (simp add: unchanged_at_def)

lemma unchanged_at_has:
  "unchanged_at k s s' \<Longrightarrow> Map_has (activeAlerts s') k = Map_has (activeAlerts s) k"
  by (simp add: unchanged_at_def Map_has_get)

lemma checkSignalStrength_frame:
  "k \<noteq> getAlertKey v ''signal_strength'' \<Longrightarrow>
   unchanged_at k s (checkSignalStrength env v x s)"
  by (simp add: checkSignalStrength_def emitAlert_frame clearAlert_frame)

lemma checkConnectionStatus_frame:
  "k \<noteq> getAlertKey v ''heartbeat_timeout'' \<Longrightarrow> k \<noteq> getAlertKey v ''signal_strength'' \<Longrightarrow>
   unchanged_at k s (checkConnectionStatus env v st s)"
  by (auto simp: checkConnectionStatus_def Let_def emitAlert_frame clearAlert_frame
      unchanged_at_refl intro: unchanged_at_trans)

lemma checkBatteryLevel_frame:
  "k \<noteq> getAlertKey v ''abnormal_status'' \<Longrightarrow>
   unchanged_at k s (checkBatteryLevel env v x s)"
  by (simp add: checkBatteryLevel_def emitAlert_frame clearAlert_frame)

lemma checkGeoFenceStatus_frame:
  "k \<noteq> getAlertKey v ''geo_fence'' \<Longrightarrow>
   unchanged_at k s (checkGeoFenceStatus env v st s)"
  by (simp add: checkGeoFenceStatus_def emitAlert_frame clearAlert_frame)

lemma checkVehicleProximity_frame:
  "k \<noteq> getAlertKey v1 (''proximity_'' @ v2) \<Longrightarrow>
   unchanged_at k s (checkVehicleProximity env v1 a1 o1 v2 a2 o2 s)"
  by (simp add: checkVehicleProximity_def Let_def emitAlert_frame clearAlert_frame)

lemma checkVehicle_absent: "telemetry_at t v = None \<Longrightarrow> checkVehicle env t s v = s"
  by (simp add: checkVehicle_def)

lemma checkVehicle_frame:
  assumes "k \<notin> set (vehicle_keys v)"
  shows "unchanged_at k s (checkVehicle env t s v)"
proof (cases "telemetry_at t v")
  case None
  then show ?thesis by (simp add: checkVehicle_absent unchanged_at_refl)
next
  case (Some d)
  have k: "k \<noteq> getAlertKey v ''signal_strength''" "k \<noteq> getAlertKey v ''heartbeat_timeout''"
    "k \<noteq> getAlertKey v ''abnormal_status''" "k \<noteq> getAlertKey v ''geo_fence''"
    using assms by (auto simp: vehicle_keys_def own_alert_types_def)
  let ?s1 = "checkSignalStrength env v (signal_strength d) s"
  let ?s2 = "checkConnectionStatus env v (vehicle_status d) ?s1"
  let ?s3 = "checkBatteryLevel env v (battery_life d) ?s2"
  let ?s4 = "checkGeoFenceStatus env v (vehicle_status d) ?s3"
  have "unchanged_at k s ?s1" using k by (simp add: checkSignalStrength_frame)
  moreover have "unchanged_at k ?s1 ?s2" using k by (simp add: checkConnectionStatus_frame)
  moreover have "unchanged_at k ?s2 ?s3" using k by (simp add: checkBatteryLevel_frame)
  moreover have "unchanged_at k ?s3 ?s4" using k by (simp add: checkGeoFenceStatus_frame)
  ultimately have "unchanged_at k s ?s4" by (blast intro: unchanged_at_trans)
  then show ?thesis by (simp add: checkVehicle_def Some)
qed

lemma checkPair_absent1: "position_of d1 = None \<Longrightarrow> checkPair env v1 d1 v2 d2 s = s"
  by (simp add: checkPair_def)

lemma checkPair_absent2: "position_of d2 = None \<Longrightarrow> checkPair env v1 d1 v2 d2 s = s"
  by (simp add: checkPair_def split: option.splits)

lemma checkPair_frame:
  "k \<noteq> proximity_key (v1, v2) \<Longrightarrow> unchanged_at k s (checkPair env v1 d1 v2 d2 s)"
  by (simp add: checkPair_def proximity_key_def checkVehicleProximity_frame unchanged_at_refl
      split: option.splits)

lemma checkVehicle_step:
  "unchanged_at k s s' \<Longrightarrow> k \<notin> set (vehicle_keys v) \<Longrightarrow>
   unchanged_at k s (checkVehicle env t s' v)"
  using checkVehicle_frame unchanged_at_trans by blast

lemma checkPair_step:
  "unchanged_at k s s' \<Longrightarrow> k \<noteq> proximity_key (v1, v2) \<Longrightarrow>
   unchanged_at k s (checkPair env v1 d1 v2 d2 s')"
  using checkPair_frame unchanged_at_trans by blast

lemma checkAlerts_Some:
  "checkAlerts env (Some t) s =
     checkPair env ''MEA'' (MEA t) ''MRA'' (MRA t)
       (checkPair env ''ERU'' (ERU t) ''MRA'' (MRA t)
         (checkPair env ''ERU'' (ERU t) ''MEA'' (MEA t)
           (checkVehicle env t (checkVehicle env t (checkVehicle env t s ''ERU'') ''MEA'') ''MRA'')))"
  by (simp add: checkAlerts_def vehicles_def)

lemma vehicle_cases:
  "v \<in> set vehicles \<Longrightarrow> v = ''ERU'' \<or> v = ''MEA'' \<or> v = ''MRA''"
  by (simp add: vehicles_def)

lemma keys_of_vehicle_simps:
  "set (keys_of_vehicle ''ERU'') =
     {''ERU_signal_strength'', ''ERU_heartbeat_timeout'', ''ERU_abnormal_status'', ''ERU_geo_fence'',
      ''ERU_proximity_ERU'', ''ERU_proximity_MEA'', ''ERU_proximity_MRA'',
      ''MEA_proximity_ERU'', ''MRA_proximity_ERU''}"
  "set (keys_of_vehicle ''MEA'') =
     {''MEA_signal_strength'', ''MEA_heartbeat_timeout'', ''MEA_abnormal_status'', ''MEA_geo_fence'',
      ''MEA_proximity_ERU'', ''MEA_proximity_MEA'', ''MEA_proximity_MRA'',
      ''ERU_proximity_MEA'', ''MRA_proximity_MEA''}"
  "set (keys_of_vehicle ''MRA'') =
     {''MRA_signal_strength'', ''MRA_heartbeat_timeout'', ''MRA_abnormal_status'', ''MRA_geo_fence'',
      ''MRA_proximity_ERU'', ''MRA_proximity_MEA'', ''MRA_proximity_MRA'',
      ''ERU_proximity_MRA'', ''MEA_proximity_MRA''}"
  by (auto simp: keys_of_vehicle_def vehicle_keys_def own_alert_types_def vehicles_def
      proximity_key_def getAlertKey_def)

lemma absent_vehicle_frame:
  assumes "v \<in> set vehicles" and "telemetry_at t v = None" and "k \<in> set (keys_of_vehicle v)"
  shows "unchanged_at k s (checkAlerts env (Some t) s)"
proof -
  consider "v = ''ERU''" | "v = ''MEA''" | "v = ''MRA''"
    using assms(1) vehicle_cases by blast
  then show ?thesis
  proof cases
    case 1
    then have a: "ERU t = None" using assms(2) by (simp add: telemetry_at_def)
    have p: "position_of (ERU t) = None" by (simp add: a position_of_def)
    have k: "k \<notin> set (vehicle_keys ''MEA'')" "k \<notin> set (vehicle_keys ''MRA'')"
        "k \<noteq> proximity_key (''MEA'', ''MRA'')"
      using assms(3) unfolding 1 keys_of_vehicle_simps
      by (auto simp: vehicle_keys_def own_alert_types_def proximity_key_def getAlertKey_def)
    have "checkVehicle env t s ''ERU'' = s"
      using assms(2) 1 by (simp add: checkVehicle_absent)
    then show ?thesis
      unfolding checkAlerts_Some
      by (simp add: checkPair_absent1 p checkPair_step checkVehicle_step k unchanged_at_refl)
  next
    case 2
    then have a: "MEA t = None" using assms(2) by (simp add: telemetry_at_def)
    have p: "position_of (MEA t) = None" by (simp add: a position_of_def)
    have k: "k \<notin> set (vehicle_keys ''ERU'')" "k \<notin> set (vehicle_keys ''MRA'')"
        "k \<noteq> proximity_key (''ERU'', ''MRA'')"
      using assms(3) unfolding 2 keys_of_vehicle_simps
      by (auto simp: vehicle_keys_def own_alert_types_def proximity_key_def getAlertKey_def)
    have "checkVehicle env t s' ''MEA'' = s'" for s'
      using assms(2) 2 by (simp add: checkVehicle_absent)
    then show ?thesis
      unfolding checkAlerts_Some
      by (simp add: checkPair_absent1 checkPair_absent2 p checkPair_step checkVehicle_step k
          unchanged_at_refl)
  next
    case 3
    then have a: "MRA t = None" using assms(2) by (simp add: telemetry_at_def)
    have p: "position_of (MRA t) = None" by (simp add: a position_of_def)
    have k: "k \<notin> set (vehicle_keys ''ERU'')" "k \<notin> set (vehicle_keys ''MEA'')"
        "k \<noteq> proximity_key (''ERU'', ''MEA'')"
      using assms(3) unfolding 3 keys_of_vehicle_simps
      by (auto simp: vehicle_keys_def own_alert_types_def proximity_key_def getAlertKey_def)
    have "checkVehicle env t s' ''MRA'' = s'" for s'
      using assms(2) 3 by (simp add: checkVehicle_absent)
    then show ?thesis
      unfolding checkAlerts_Some
      by (simp add: checkPair_absent2 p checkPair_step checkVehicle_step k unchanged_at_refl)
  qed
qed

section \<open>What a pass decides for a vehicle\<close>

lemma has_emitAlert:
  "Map_has (activeAlerts (emitAlert env v ty sev title d s)) k =
     (k = getAlertKey v ty \<or> Map_has (activeAlerts s) k)"
  using emitAlert_keys [of env v ty sev title d s]
  by (auto simp: Map_has_def getActiveAlerts_def Map_keys_def)

lemma has_clearAlert:
  "Map_has (activeAlerts (clearAlert v ty s)) k =
     (k \<noteq> getAlertKey v ty \<and> Map_has (activeAlerts s) k)"
  using clearAlert_keys [of v ty s]
  by (auto simp: Map_has_def getActiveAlerts_def Map_keys_def)

lemma checkVehicle_verdict:
  assumes "telemetry_at t w = Some d"
  shows "Map_has (activeAlerts (checkVehicle env t s w)) (getAlertKey w ''signal_strength'')
           = (signal_strength d < SIGNAL_STRENGTH \<or> vehicle_status d = ''Bad Connection'')"
    and "Map_has (activeAlerts (checkVehicle env t s w)) (getAlertKey w ''abnormal_status'')
           = (battery_life d < LOW_BATTERY)"
    and "Map_has (activeAlerts (checkVehicle env t s w)) (getAlertKey w ''geo_fence'')
           = (vehicle_status d = ''Approaching restricted area'')"
    and "Map_has (activeAlerts (checkVehicle env t s w)) (getAlertKey w ''heartbeat_timeout'')
           = (vehicle_status d = ''Disconnected'' \<or>
              vehicle_status d \<noteq> ''Connected'' \<and>
              Map_has (activeAlerts s) (getAlertKey w ''heartbeat_timeout''))"
  by (auto simp: checkVehicle_def assms checkSignalStrength_def checkConnectionStatus_def
      checkBatteryLevel_def checkGeoFenceStatus_def Let_def has_emitAlert has_clearAlert
      getAlertKey_def)

lemma checkAlerts_present_vehicle:
  assumes "w \<in> set vehicles" and "k \<in> set (vehicle_keys w)"
  shows "\<exists>s0. unchanged_at k (checkVehicle env t s0 w) (checkAlerts env (Some t) s)"
proof -
  have p: "k \<noteq> proximity_key (''ERU'', ''MEA'')" "k \<noteq> proximity_key (''ERU'', ''MRA'')"
    "k \<noteq> proximity_key (''MEA'', ''MRA'')"
    using assms vehicle_cases [OF assms(1)]
    by (auto simp: vehicle_keys_def own_alert_types_def proximity_key_def getAlertKey_def)
  consider "w = ''ERU''" | "w = ''MEA''" | "w = ''MRA''"
    using assms(1) vehicle_cases by blast
  then show ?thesis
  proof cases
    case 1
    have k: "k \<notin> set (vehicle_keys ''MEA'')" "k \<notin> set (vehicle_keys ''MRA'')"
      using assms(2) unfolding 1
      by (auto simp: vehicle_keys_def own_alert_types_def getAlertKey_def)
    have "unchanged_at k (checkVehicle env t s ''ERU'') (checkAlerts env (Some t) s)"
      unfolding checkAlerts_Some
      by (intro checkPair_step checkVehicle_step unchanged_at_refl p k)
    then show ?thesis unfolding 1 by blast
  next
    case 2
    have k: "k \<notin> set (vehicle_keys ''MRA'')"
      using assms(2) unfolding 2
      by (auto simp: vehicle_keys_def own_alert_types_def getAlertKey_def)
    have "unchanged_at k (checkVehicle env t (checkVehicle env t s ''ERU'') ''MEA'')
        (checkAlerts env (Some t) s)"
      unfolding checkAlerts_Some
      by (intro checkPair_step checkVehicle_step unchanged_at_refl p k)
    then show ?thesis unfolding 2 by blast
  next
    case 3
    have "unchanged_at k
        (checkVehicle env t (checkVehicle env t (checkVehicle env t s ''ERU'') ''MEA'') ''MRA'')
        (checkAlerts env (Some t) s)"
      unfolding checkAlerts_Some
      by (intro checkPair_step unchanged_at_refl p)
    then show ?thesis unfolding 3 by blast
  qed
qed

lemma checkAlerts_verdict:
  assumes "w \<in> set vehicles" and "telemetry_at t w = Some d"
  shows "Map_has (activeAlerts (checkAlerts env (Some t) s)) (getAlertKey w ''signal_strength'')
           = (signal_strength d < SIGNAL_STRENGTH \<or> vehicle_status d = ''Bad Connection'')"
    and "Map_has (activeAlerts (checkAlerts env (Some t) s)) (getAlertKey w ''abnormal_status'')
           = (battery_life d < LOW_BATTERY)"
    and "Map_has (activeAlerts (checkAlerts env (Some t) s)) (getAlertKey w ''geo_fence'')
           = (vehicle_status d = ''Approaching restricted area'')"
    and "vehicle_status d = ''Disconnected'' \<Longrightarrow>
         Map_has (activeAlerts (checkAlerts env (Some t) s)) (getAlertKey w ''heartbeat_timeout'')"
    and "vehicle_status d = ''Connected'' \<Longrightarrow>
         \<not> Map_has (activeAlerts (checkAlerts env (Some t) s)) (getAlertKey w ''heartbeat_timeout'')"
proof -
  have m: "getAlertKey w ty \<in> set (vehicle_keys w)" if "ty \<in> set own_alert_types" for ty
    using that by (simp add: vehicle_keys_def)
  have r: "\<exists>s0. Map_has (activeAlerts (checkAlerts env (Some t) s)) (getAlertKey w ty)
      = Map_has (activeAlerts (checkVehicle env t s0 w)) (getAlertKey w ty)"
    if "ty \<in> set own_alert_types" for ty
    using checkAlerts_present_vehicle [OF assms(1) m [OF that], of env t s] unchanged_at_has
    by blast
  show "Map_has (activeAlerts (checkAlerts env (Some t) s)) (getAlertKey w ''signal_strength'')
           = (signal_strength d < SIGNAL_STRENGTH \<or> vehicle_status d = ''Bad Connection'')"
    using r [of "''signal_strength''"] checkVehicle_verdict(1) [OF assms(2)]
    by (auto simp: own_alert_types_def)
  show "Map_has (activeAlerts (checkAlerts env (Some t) s)) (getAlertKey w ''abnormal_status'')
           = (battery_life d < LOW_BATTERY)"
    using r [of "''abnormal_status''"] checkVehicle_verdict(2) [OF assms(2)]
    by (auto simp: own_alert_types_def)
  show "Map_has (activeAlerts (checkAlerts env (Some t) s)) (getAlertKey w ''geo_fence'')
           = (vehicle_status d = ''Approaching restricted area'')"
    using r [of "''geo_fence''"] checkVehicle_verdict(3) [OF assms(2)]
    by (auto simp: own_alert_types_def)
  show "Map_has (activeAlerts (checkAlerts env (Some t) s)) (getAlertKey w ''heartbeat_timeout'')"
    if "vehicle_status d = ''Disconnected''"
    using r [of "''heartbeat_timeout''"] checkVehicle_verdict(4) [OF assms(2)] that
    by (auto simp: own_alert_types_def)
  show "\<not> Map_has (activeAlerts (checkAlerts env (Some t) s)) (getAlertKey w ''heartbeat_timeout'')"
    if "vehicle_status d = ''Connected''"
    using r [of "''heartbeat_timeout''"] checkVehicle_verdict(4) [OF assms(2)] that
    by (auto simp: own_alert_types_def)
qed

text \<open>
  C2. For a vehicle whose record is present with status \<^verbatim>\<open>"Bad Connection"\<close> and signal
  strength at least \<open>-70\<close>, the signal-strength key of the vehicle is active after one
  pass, from every prior state: the signal-strength checker is the clear, after which
  the key is not active, and the connection-status checker that runs next makes it
  active again.
\<close>

theorem bad_connection_keeps_signal_alert_active:
  assumes "vehicle \<in> set vehicles"
    and "telemetry_at t vehicle = Some d"
    and "vehicle_status d = ''Bad Connection''"
    and "- 70 \<le> signal_strength d"
  shows "Map_has (activeAlerts (checkAlerts env (Some t) s)) (getAlertKey vehicle ''signal_strength'') \<and>
         (\<forall>s0. checkSignalStrength env vehicle (signal_strength d) s0
                  = clearAlert vehicle ''signal_strength'' s0 \<and>
               \<not> Map_has (activeAlerts (checkSignalStrength env vehicle (signal_strength d) s0))
                    (getAlertKey vehicle ''signal_strength'') \<and>
               Map_has (activeAlerts (checkConnectionStatus env vehicle (vehicle_status d)
                          (checkSignalStrength env vehicle (signal_strength d) s0)))
                 (getAlertKey vehicle ''signal_strength''))"
proof -
  have 1: "Map_has (activeAlerts (checkAlerts env (Some t) s)) (getAlertKey vehicle ''signal_strength'')"
    using checkAlerts_verdict(1) [OF assms(1,2), of env s] assms(3) by simp
  have 2: "checkSignalStrength env vehicle (signal_strength d) s0
             = clearAlert vehicle ''signal_strength'' s0" for s0
    using assms(4) by (simp add: checkSignalStrength_def SIGNAL_STRENGTH_def)
  have 3: "\<not> Map_has (activeAlerts (clearAlert vehicle ''signal_strength'' s0))
              (getAlertKey vehicle ''signal_strength'')" for s0
    by (simp add: has_clearAlert)
  have 4: "Map_has (activeAlerts (checkConnectionStatus env vehicle (vehicle_status d) s1))
             (getAlertKey vehicle ''signal_strength'')" for s1
    using assms(3) by (simp add: checkConnectionStatus_def Let_def has_emitAlert)
  show ?thesis
    using 1 3 4 by (simp add: 2)
qed

theorem bad_connection_keeps_signal_alert_active_witness:
  "''MEA'' \<in> set vehicles \<and>
   Map_has (activeAlerts (checkAlerts sample_env
       (Some \<lparr>ERU = None,
              MEA = Some \<lparr>signal_strength = - 50, vehicle_status = ''Bad Connection'',
                          battery_life = 80, current_position = None\<rparr>,
              MRA = None\<rparr>)
       \<lparr>activeAlerts = [(''MEA_signal_strength'', 1699999999000)], emitted = [], clock_reads = 0\<rparr>))
     ''MEA_signal_strength''"
proof -
  let ?d = "\<lparr>signal_strength = - 50, vehicle_status = ''Bad Connection'',
                          battery_life = 80, current_position = None\<rparr>"
  let ?t = "\<lparr>ERU = None, MEA = Some ?d, MRA = None\<rparr>"
  have h1: "''MEA'' \<in> set vehicles" by (simp add: vehicles_def)
  have h2: "telemetry_at ?t ''MEA'' = Some ?d" by (simp add: telemetry_at_def)
  have h3: "vehicle_status ?d = ''Bad Connection''" by simp
  have h4: "- 70 \<le> signal_strength ?d" by simp
  show ?thesis
    using h1 bad_connection_keeps_signal_alert_active [OF h1 h2 h3 h4, of sample_env] by (simp add: getAlertKey_def)
qed

text \<open>
  C10. In a pass over a present snapshot in which the record of one vehicle is absent,
  every key that names this vehicle keeps its entry in the store (present or not, with
  the same timestamp) and no event is published under it. For every vehicle whose
  record is present the checkers have run: after the pass its signal-strength,
  battery and geo-fence keys are active exactly when the record calls for the alert,
  and its heartbeat key is active when it is disconnected and not active when it is
  connected.
\<close>

theorem absent_vehicle_alerts_unchanged:
  assumes "vehicle \<in> set vehicles" and "telemetry_at t vehicle = None"
  shows "(\<forall>k \<in> set (keys_of_vehicle vehicle). unchanged_at k s (checkAlerts env (Some t) s)) \<and>
         (\<forall>w d. w \<in> set vehicles \<and> telemetry_at t w = Some d \<longrightarrow>
            (Map_has (activeAlerts (checkAlerts env (Some t) s)) (getAlertKey w ''signal_strength'')
               = (signal_strength d < - 70 \<or> vehicle_status d = ''Bad Connection'')) \<and>
            (Map_has (activeAlerts (checkAlerts env (Some t) s)) (getAlertKey w ''abnormal_status'')
               = (battery_life d < 20)) \<and>
            (Map_has (activeAlerts (checkAlerts env (Some t) s)) (getAlertKey w ''geo_fence'')
               = (vehicle_status d = ''Approaching restricted area'')) \<and>
            (vehicle_status d = ''Disconnected'' \<longrightarrow>
               Map_has (activeAlerts (checkAlerts env (Some t) s)) (getAlertKey w ''heartbeat_timeout'')) \<and>
            (vehicle_status d = ''Connected'' \<longrightarrow>
               \<not> Map_has (activeAlerts (checkAlerts env (Some t) s)) (getAlertKey w ''heartbeat_timeout'')))"
proof (intro conjI ballI allI impI; (elim conjE)?)
  fix k assume "k \<in> set (keys_of_vehicle vehicle)"
  then show "unchanged_at k s (checkAlerts env (Some t) s)"
    using assms by (rule absent_vehicle_frame [rotated 2])
next
  fix w d assume w: "w \<in> set vehicles" "telemetry_at t w = Some d"
  show "Map_has (activeAlerts (checkAlerts env (Some t) s)) (getAlertKey w ''signal_strength'')
               = (signal_strength d < - 70 \<or> vehicle_status d = ''Bad Connection'')"
    using checkAlerts_verdict(1) [OF w] by (simp add: SIGNAL_STRENGTH_def)
  show "Map_has (activeAlerts (checkAlerts env (Some t) s)) (getAlertKey w ''abnormal_status'')
               = (battery_life d < 20)"
    using checkAlerts_verdict(2) [OF w] by (simp add: LOW_BATTERY_def)
  show "Map_has (activeAlerts (checkAlerts env (Some t) s)) (getAlertKey w ''geo_fence'')
               = (vehicle_status d = ''Approaching restricted area'')"
    using checkAlerts_verdict(3) [OF w] by simp
  show "Map_has (activeAlerts (checkAlerts env (Some t) s)) (getAlertKey w ''heartbeat_timeout'')"
    if "vehicle_status d = ''Disconnected''"
    using checkAlerts_verdict(4) [OF w that] .
  show "\<not> Map_has (activeAlerts (checkAlerts env (Some t) s)) (getAlertKey w ''heartbeat_timeout'')"
    if "vehicle_status d = ''Connected''"
    using checkAlerts_verdict(5) [OF w that] .
qed

theorem absent_vehicle_alerts_unchanged_witness:
  "''ERU'' \<in> set vehicles \<and>
   telemetry_at
     \<lparr>ERU = None,
      MEA = Some \<lparr>signal_strength = - 50, vehicle_status = ''Connected'',
                  battery_life = 10, current_position = None\<rparr>,
      MRA = None\<rparr> ''ERU'' = None \<and>
   Map_get (activeAlerts (checkAlerts sample_env
       (Some \<lparr>ERU = None,
              MEA = Some \<lparr>signal_strength = - 50, vehicle_status = ''Connected'',
                          battery_life = 10, current_position = None\<rparr>,
              MRA = None\<rparr>)
       \<lparr>activeAlerts = [(''ERU_abnormal_status'', 1699999990000)], emitted = [],
        clock_reads = 1\<rparr>))
     ''ERU_abnormal_status'' = Some 1699999990000 \<and>
   Map_has (activeAlerts (checkAlerts sample_env
       (Some \<lparr>ERU = None,
              MEA = Some \<lparr>signal_strength = - 50, vehicle_status = ''Connected'',
                          battery_life = 10, current_position = None\<rparr>,
              MRA = None\<rparr>)
       \<lparr>activeAlerts = [(''ERU_abnormal_status'', 1699999990000)], emitted = [],
        clock_reads = 1\<rparr>))
     ''MEA_abnormal_status''"
proof -
  let ?d = "\<lparr>signal_strength = - 50, vehicle_status = ''Connected'',
                  battery_life = 10, current_position = None\<rparr>"
  let ?t = "\<lparr>ERU = None, MEA = Some ?d, MRA = None\<rparr>"
  let ?s = "\<lparr>activeAlerts = [(''ERU_abnormal_status'', 1699999990000)], emitted = [],
        clock_reads = 1\<rparr>"
  have h1: "''ERU'' \<in> set vehicles" by (simp add: vehicles_def)
  have h2: "telemetry_at ?t ''ERU'' = None" by (simp add: telemetry_at_def)
  note T = absent_vehicle_alerts_unchanged [OF h1 h2, of ?s sample_env]
  have k: "''ERU_abnormal_status'' \<in> set (keys_of_vehicle ''ERU'')"
    by (simp add: keys_of_vehicle_def vehicle_keys_def own_alert_types_def getAlertKey_def)
  have "unchanged_at ''ERU_abnormal_status'' ?s (checkAlerts sample_env (Some ?t) ?s)"
    using T k by blast
  then have a: "Map_get (activeAlerts (checkAlerts sample_env (Some ?t) ?s)) ''ERU_abnormal_status''
      = Some 1699999990000"
    by (simp add: unchanged_at_def Map_get_def)
  have w: "''MEA'' \<in> set vehicles \<and> telemetry_at ?t ''MEA'' = Some ?d"
    by (simp add: vehicles_def telemetry_at_def)
  have "Map_has (activeAlerts (checkAlerts sample_env (Some ?t) ?s)) (getAlertKey ''MEA'' ''abnormal_status'')
      = (battery_life ?d < 20)"
    using T w by blast
  then have b: "Map_has (activeAlerts (checkAlerts sample_env (Some ?t) ?s)) ''MEA_abnormal_status''"
    by (simp add: getAlertKey_def)
  show ?thesis using h1 h2 a b by simp
qed

section \<open>The end-to-end scenario\<close>

text \<open>
  C7. From an empty store, one pass over the scenario snapshot publishes exactly one
  notification, the error-severity create of \<open>ERU_abnormal_status\<close>, and leaves that key
  as the only active alert. No proximity alert is raised: the distance of the two
  positions is \<open>3959 \<cdot> 5280 \<cdot> \<pi> / 180000\<close> feet (about 364.8), not below the
  threshold of 100.
\<close>

theorem checkAlerts_scenario_one_publish:
  "emitted (checkAlerts env (Some scenario) \<lparr>activeAlerts = [], emitted = es, clock_reads = n\<rparr>)
     = es @ [CreateToast ''ERU_abnormal_status'' Sev_error ''Error: Abnormal Status''
              (''Abnormal ERU status (low battery: '' @ toFixed env 15 1 @ ''%)!'')] \<and>
   getActiveAlerts (checkAlerts env (Some scenario) \<lparr>activeAlerts = [], emitted = es, clock_reads = n\<rparr>)
     = [''ERU_abnormal_status''] \<and>
   calculateDistance 0 0 0 (1 / 1000) = 3959 * (pi / 180000) * 5280 \<and>
   \<not> calculateDistance 0 0 0 (1 / 1000) < PROXIMITY"
proof -
  let ?s' = "checkAlerts env (Some scenario) \<lparr>activeAlerts = [], emitted = es, clock_reads = n\<rparr>"
  have "emitted ?s' = es @ [CreateToast ''ERU_abnormal_status'' Sev_error ''Error: Abnormal Status''
              (''Abnormal ERU status (low battery: '' @ toFixed env 15 1 @ ''%)!'')] \<and>
        getActiveAlerts ?s' = [''ERU_abnormal_status'']"
    by (simp add: checkAlerts_Some checkVehicle_def telemetry_at_def scenario_def
      checkSignalStrength_def checkConnectionStatus_def checkBatteryLevel_def
      checkGeoFenceStatus_def checkPair_def position_of_def checkVehicleProximity_def
      emitAlert_def clearAlert_def emit_def Let_def Map_get_def Map_has_def
      getAlertKey_def SIGNAL_STRENGTH_def LOW_BATTERY_def scenario_far
      getActiveAlerts_def Map_keys_def)
  then show ?thesis
    using scenario_far scenario_distance by simp
qed

section \<open>Reachable states\<close>

lemma emitAlert_ids:
  "event_id ` set (emitted (emitAlert env v ty sev title d s))
     \<subseteq> insert (getAlertKey v ty) (event_id ` set (emitted s))"
  by (auto simp: emitAlert_def Let_def emit_def)

lemma clearAlert_ids:
  "event_id ` set (emitted (clearAlert v ty s))
     \<subseteq> insert (getAlertKey v ty) (event_id ` set (emitted s))"
  by (auto simp: clearAlert_def Let_def emit_def)

lemma emitAlert_confined:
  assumes "confined A s" and "getAlertKey v ty \<in> A"
  shows "confined A (emitAlert env v ty sev title d s)"
proof -
  have "set (getActiveAlerts (emitAlert env v ty sev title d s)) \<subseteq> A"
    using assms by (simp add: emitAlert_keys confined_def)
  moreover have "insert (getAlertKey v ty) (event_id ` set (emitted s)) \<subseteq> A"
    using assms by (simp add: confined_def)
  then have "event_id ` set (emitted (emitAlert env v ty sev title d s)) \<subseteq> A"
    by (rule order_trans [OF emitAlert_ids])
  ultimately show ?thesis by (simp add: confined_def)
qed

lemma clearAlert_confined:
  assumes "confined A s" and "getAlertKey v ty \<in> A"
  shows "confined A (clearAlert v ty s)"
proof -
  have "set (getActiveAlerts (clearAlert v ty s)) \<subseteq> A"
    using assms by (auto simp: clearAlert_keys confined_def)
  moreover have "insert (getAlertKey v ty) (event_id ` set (emitted s)) \<subseteq> A"
    using assms by (simp add: confined_def)
  then have "event_id ` set (emitted (clearAlert v ty s)) \<subseteq> A"
    by (rule order_trans [OF clearAlert_ids])
  ultimately show ?thesis by (simp add: confined_def)
qed

lemma checkVehicle_confined:
  assumes "confined A s" and "set (vehicle_keys v) \<subseteq> A"
  shows "confined A (checkVehicle env t s v)"
proof -
  have k: "getAlertKey v ''signal_strength'' \<in> A" "getAlertKey v ''heartbeat_timeout'' \<in> A"
    "getAlertKey v ''abnormal_status'' \<in> A" "getAlertKey v ''geo_fence'' \<in> A"
    using assms(2) by (auto simp: vehicle_keys_def own_alert_types_def)
  have 1: "confined A (checkSignalStrength env v x s')" if "confined A s'" for x s'
    using that k by (simp add: checkSignalStrength_def emitAlert_confined clearAlert_confined)
  have 2: "confined A (checkConnectionStatus env v x s')" if "confined A s'" for x s'
    using that k by (simp add: checkConnectionStatus_def Let_def emitAlert_confined clearAlert_confined)
  have 3: "confined A (checkBatteryLevel env v x s')" if "confined A s'" for x s'
    using that k by (simp add: checkBatteryLevel_def emitAlert_confined clearAlert_confined)
  have 4: "confined A (checkGeoFenceStatus env v x s')" if "confined A s'" for x s'
    using that k by (simp add: checkGeoFenceStatus_def emitAlert_confined clearAlert_confined)
  show ?thesis
    using assms(1) by (simp add: checkVehicle_def 1 2 3 4 split: option.splits)
qed

lemma checkPair_confined:
  "confined A s \<Longrightarrow> proximity_key (v1, v2) \<in> A \<Longrightarrow> confined A (checkPair env v1 d1 v2 d2 s)"
  by (simp add: checkPair_def checkVehicleProximity_def Let_def proximity_key_def
      emitAlert_confined clearAlert_confined split: option.splits)

lemma checkAlerts_confined:
  assumes "confined (set alert_keys) s"
  shows "confined (set alert_keys) (checkAlerts env telemetryState s)"
proof (cases telemetryState)
  case None
  then show ?thesis using assms by (simp add: checkAlerts_def)
next
  case (Some t)
  have v: "set (vehicle_keys ''ERU'') \<subseteq> set alert_keys"
    "set (vehicle_keys ''MEA'') \<subseteq> set alert_keys"
    "set (vehicle_keys ''MRA'') \<subseteq> set alert_keys"
    by (auto simp: alert_keys_def vehicles_def)
  have p: "proximity_key (''ERU'', ''MEA'') \<in> set alert_keys"
    "proximity_key (''ERU'', ''MRA'') \<in> set alert_keys"
    "proximity_key (''MEA'', ''MRA'') \<in> set alert_keys"
    by (simp_all add: alert_keys_def proximity_pairs_def)
  show ?thesis
    unfolding Some checkAlerts_Some
    by (intro checkPair_confined checkVehicle_confined assms v p)
qed

lemma clearAllAlerts_confined: "confined A s \<Longrightarrow> confined A (clearAllAlerts s)"
  by (auto simp: confined_def clearAllAlerts_eq getActiveAlerts_def Map_keys_def)

lemma reachable_confined: "reachable env s \<Longrightarrow> confined (set alert_keys) s"
proof (induction rule: reachable.induct)
  case start
  show ?case by (simp add: confined_def init_state_def getActiveAlerts_def Map_keys_def)
next
  case (pass s telemetryState)
  then show ?case by (simp add: checkAlerts_confined)
next
  case (reset s)
  then show ?case by (simp add: clearAllAlerts_confined)
qed

lemma reachable_wf: "reachable env s \<Longrightarrow> Map_wf (activeAlerts s)"
proof (induction rule: reachable.induct)
  case start
  show ?case by (simp add: init_state_def Map_wf_def)
next
  case (pass s telemetryState)
  have 1: "Map_wf (activeAlerts (checkVehicle env t s' v))" if "Map_wf (activeAlerts s')" for t s' v
    using that
    by (simp add: checkVehicle_def checkSignalStrength_def checkConnectionStatus_def
        checkBatteryLevel_def checkGeoFenceStatus_def Let_def emitAlert_wf clearAlert_wf
        split: option.splits)
  have 2: "Map_wf (activeAlerts (checkPair env v1 d1 v2 d2 s'))" if "Map_wf (activeAlerts s')"
    for v1 d1 v2 d2 s'
    using that
    by (simp add: checkPair_def checkVehicleProximity_def Let_def emitAlert_wf clearAlert_wf
        split: option.splits)
  show ?case
  proof (cases telemetryState)
    case None
    then show ?thesis using pass.IH by (simp add: checkAlerts_def)
  next
    case (Some t)
    show ?thesis unfolding Some checkAlerts_Some by (intro 1 2 pass.IH)
  qed
next
  case (reset s)
  show ?case by (simp add: clearAllAlerts_eq Map_wf_def)
qed

lemma proximity_key_decompose:
  "getAlertKey v (''proximity_'' @ w) \<in> set alert_keys \<Longrightarrow>
   (v, w) \<in> {(''ERU'', ''MEA''), (''ERU'', ''MRA''), (''MEA'', ''MRA'')}"
  by (simp add: alert_keys_def vehicles_def vehicle_keys_def own_alert_types_def
      proximity_key_def proximity_pairs_def getAlertKey_def append_eq_Cons_conv)

text \<open>
  C9. In every reachable state all active keys, and the ids of all events published so
  far, are among the fifteen keys of \<open>alert_keys\<close>. Hence a proximity key
  \<open>v_proximity_w\<close> that is active or was ever published has \<open>(v, w)\<close> among
  ERU/MEA, ERU/MRA and MEA/MRA in this direction, and the three reverse keys are never
  active and never published.
\<close>

theorem proximity_keys_one_direction:
  assumes "reachable env s"
  shows "set (getActiveAlerts s) \<subseteq> set alert_keys \<and>
         event_id ` set (emitted s) \<subseteq> set alert_keys \<and>
         (\<forall>v w. getAlertKey v (''proximity_'' @ w) \<in> set (getActiveAlerts s) \<union> event_id ` set (emitted s)
            \<longrightarrow> (v, w) \<in> {(''ERU'', ''MEA''), (''ERU'', ''MRA''), (''MEA'', ''MRA'')}) \<and>
         ''MEA_proximity_ERU'' \<notin> set (getActiveAlerts s) \<union> event_id ` set (emitted s) \<and>
         ''MRA_proximity_ERU'' \<notin> set (getActiveAlerts s) \<union> event_id ` set (emitted s) \<and>
         ''MRA_proximity_MEA'' \<notin> set (getActiveAlerts s) \<union> event_id ` set (emitted s)"
proof -
  have c: "set (getActiveAlerts s) \<union> event_id ` set (emitted s) \<subseteq> set alert_keys"
    using reachable_confined [OF assms] by (simp add: confined_def)
  have d: "(v, w) \<in> {(''ERU'', ''MEA''), (''ERU'', ''MRA''), (''MEA'', ''MRA'')}"
    if "getAlertKey v (''proximity_'' @ w) \<in> set (getActiveAlerts s) \<union> event_id ` set (emitted s)"
    for v w
    by (rule proximity_key_decompose) (rule subsetD [OF c that])
  have n: "x \<notin> set (getActiveAlerts s) \<union> event_id ` set (emitted s)"
    if "x \<notin> set alert_keys" for x
    using that subsetD [OF c] by (rule contrapos_nn)
  have r: "''MEA_proximity_ERU'' \<notin> set alert_keys" "''MRA_proximity_ERU'' \<notin> set alert_keys"
    "''MRA_proximity_MEA'' \<notin> set alert_keys"
    by (simp_all add: alert_keys_def vehicles_def vehicle_keys_def own_alert_types_def
      proximity_key_def proximity_pairs_def getAlertKey_def)
  show ?thesis
  proof (intro conjI allI impI)
    show "set (getActiveAlerts s) \<subseteq> set alert_keys" using c by simp
    show "event_id ` set (emitted s) \<subseteq> set alert_keys" using c by simp
    show "(v, w) \<in> {(''ERU'', ''MEA''), (''ERU'', ''MRA''), (''MEA'', ''MRA'')}"
      if "getAlertKey v (''proximity_'' @ w)
            \<in> set (getActiveAlerts s) \<union> event_id ` set (emitted s)" for v w
      using that by (rule d)
    show "''MEA_proximity_ERU'' \<notin> set (getActiveAlerts s) \<union> event_id ` set (emitted s)"
      by (rule n [OF r(1)])
    show "''MRA_proximity_ERU'' \<notin> set (getActiveAlerts s) \<union> event_id ` set (emitted s)"
      by (rule n [OF r(2)])
    show "''MRA_proximity_MEA'' \<notin> set (getActiveAlerts s) \<union> event_id ` set (emitted s)"
      by (rule n [OF r(3)])
  qed
qed

theorem proximity_keys_one_direction_witness:
  "reachable sample_env (checkAlerts sample_env
       (Some \<lparr>ERU = Some \<lparr>signal_strength = - 50, vehicle_status = ''Connected'',
                          battery_life = 80,
                          current_position = Some \<lparr>latitude = 34, longitude = - 117\<rparr>\<rparr>,
              MEA = Some \<lparr>signal_strength = - 50, vehicle_status = ''Connected'',
                          battery_life = 80,
                          current_position = Some \<lparr>latitude = 34, longitude = - 117\<rparr>\<rparr>,
              MRA = None\<rparr>) init_state) \<and>
   getActiveAlerts (checkAlerts sample_env
       (Some \<lparr>ERU = Some \<lparr>signal_strength = - 50, vehicle_status = ''Connected'',
                          battery_life = 80,
                          current_position = Some \<lparr>latitude = 34, longitude = - 117\<rparr>\<rparr>,
              MEA = Some \<lparr>signal_strength = - 50, vehicle_status = ''Connected'',
                          battery_life = 80,
                          current_position = Some \<lparr>latitude = 34, longitude = - 117\<rparr>\<rparr>,
              MRA = None\<rparr>) init_state) = [''ERU_proximity_MEA''] \<and>
   ''MEA_proximity_ERU'' \<notin> set (getActiveAlerts (checkAlerts sample_env
       (Some \<lparr>ERU = Some \<lparr>signal_strength = - 50, vehicle_status = ''Connected'',
                          battery_life = 80,
                          current_position = Some \<lparr>latitude = 34, longitude = - 117\<rparr>\<rparr>,
              MEA = Some \<lparr>signal_strength = - 50, vehicle_status = ''Connected'',
                          battery_life = 80,
                          current_position = Some \<lparr>latitude = 34, longitude = - 117\<rparr>\<rparr>,
              MRA = None\<rparr>) init_state))"
proof -
  let ?d = "\<lparr>signal_strength = - 50, vehicle_status = ''Connected'', battery_life = 80,
             current_position = Some \<lparr>latitude = 34, longitude = - 117\<rparr>\<rparr>"
  let ?t = "\<lparr>ERU = Some ?d, MEA = Some ?d, MRA = None\<rparr>"
  let ?s' = "checkAlerts sample_env (Some ?t) init_state"
  have r: "reachable sample_env ?s'"
    by (rule reachable.pass [OF reachable.start])
  have e: "getActiveAlerts ?s' = [''ERU_proximity_MEA'']"
    by (simp add: checkAlerts_Some checkVehicle_def telemetry_at_def
      checkSignalStrength_def checkConnectionStatus_def checkBatteryLevel_def
      checkGeoFenceStatus_def checkPair_def position_of_def checkVehicleProximity_def
      emitAlert_def clearAlert_def emit_def Let_def Map_get_def Map_has_def
      getAlertKey_def SIGNAL_STRENGTH_def LOW_BATTERY_def PROXIMITY_def same_place
      getActiveAlerts_def Map_keys_def init_state_def)
  have "''MEA_proximity_ERU'' \<notin> set (getActiveAlerts ?s') \<union> event_id ` set (emitted ?s')"
    using proximity_keys_one_direction [OF r] by blast
  then have "''MEA_proximity_ERU'' \<notin> set (getActiveAlerts ?s')" by blast
  then show ?thesis using r e by blast
qed

end
